theory Spec2Isabelle
  imports Main
begin

section \<open>Values of the request body\<close>

text \<open>
  The handlers of \<^verbatim>\<open>app.js\<close> destructure fields out of \<^verbatim>\<open>req.body\<close>. The field
  \<^verbatim>\<open>text\<close> is inspected dynamically (\<^verbatim>\<open>!text\<close>, \<^verbatim>\<open>typeof text\<close>), so it is
  modelled as a JavaScript value; a field that is absent from the body reads as
  \<^verbatim>\<open>undefined\<close>. \<open>JNum n\<close> stands for the JSON number \<open>n\<close>, an integer in
  JavaScript's safe range (below \<open>2 ^ 53\<close> in absolute value): those are the
  numbers JavaScript holds exactly and prints in decimal.
\<close>

datatype jsval =
    JUndefined
  | JNull
  | JBool bool
  | JNum int
  | JStr string
  | JArray "jsval list"
  | JObject "(string \<times> jsval) list"

text \<open>JavaScript's \<^verbatim>\<open>ToBoolean\<close>; \<^verbatim>\<open>!v\<close> is its negation.\<close>

fun truthy :: "jsval \<Rightarrow> bool" where
  "truthy JUndefined = False"
| "truthy JNull = False"
| "truthy (JBool b) = b"
| "truthy (JNum n) = (n \<noteq> 0)"
| "truthy (JStr s) = (s \<noteq> [])"
| "truthy (JArray xs) = True"
| "truthy (JObject kvs) = True"

text \<open>JavaScript's \<^verbatim>\<open>typeof\<close>.\<close>

fun typeof :: "jsval \<Rightarrow> string" where
  "typeof JUndefined = ''undefined''"
| "typeof JNull = ''object''"
| "typeof (JBool b) = ''boolean''"
| "typeof (JNum n) = ''number''"
| "typeof (JStr s) = ''string''"
| "typeof (JArray xs) = ''object''"
| "typeof (JObject kvs) = ''object''"

section \<open>Documents and the document store\<close>

text \<open>
  The two mongoose models of \<^verbatim>\<open>app.js\<close> (lines 15-23). An \<^verbatim>\<open>ObjectId\<close> is
  modelled by a natural number; the route parameter \<^verbatim>\<open>:postId\<close> and the
  \<^verbatim>\<open>userId\<close> of a decoded credential are taken as already cast to that type.
  The fields of a user are strings, as the schema declares them. The \<^verbatim>\<open>text\<close>
  of a post is declared \<^verbatim>\<open>String\<close> as well; it is kept as a JavaScript value
  because \<^verbatim>\<open>PUT /posts/:postId\<close> hands the body's \<^verbatim>\<open>text\<close> to the store
  unchecked, and mongoose's cast to the schema type lets \<^verbatim>\<open>null\<close> through.
\<close>

type_synonym oid = nat

record user =
  user_id :: oid
  username :: string
  email :: string
  password :: string

record post =
  post_id :: oid
  userId :: oid
  "text" :: jsval

text \<open>
  The state of the store: the two collections in insertion order, the next fresh
  \<^verbatim>\<open>ObjectId\<close> handed to a new document, and whether the connection opened by
  \<^verbatim>\<open>mongoose.connect\<close> is usable. Every awaited store call rejects when it is
  not; the handlers catch that and answer 500.
\<close>

record db =
  users :: "user list"
  posts :: "post list"
  next_oid :: oid
  connected :: bool

datatype exn = StoreError | CastError

text \<open>
  \<^verbatim>\<open>Number.prototype.toString\<close> and \<^verbatim>\<open>Boolean.prototype.toString\<close>, on the
  integers of the model: the decimal numeral, with a minus sign when negative.
\<close>

function decimal :: "nat \<Rightarrow> string" where
  "decimal n =
     (if n < 10 then [''0123456789'' ! n]
      else decimal (n div 10) @ [''0123456789'' ! (n mod 10)])"
  by pat_completeness auto
termination
  by (relation "measure id") auto

declare decimal.simps [simp del]

definition number_toString :: "int \<Rightarrow> string" where
  "number_toString n = (if n < 0 then ''-'' @ decimal (nat (- n)) else decimal (nat n))"

definition boolean_toString :: "bool \<Rightarrow> string" where
  "boolean_toString b = (if b then ''true'' else ''false'')"

text \<open>
  The cast mongoose applies to a value written to a path of schema type
  \<^verbatim>\<open>String\<close>: \<^verbatim>\<open>null\<close> and \<^verbatim>\<open>undefined\<close> pass through, a string is kept, a
  number or boolean becomes its string, and an array or object raises
  \<^verbatim>\<open>CastError\<close>. The cast runs in the client, before anything is sent to the
  store.
\<close>

fun castString :: "jsval \<Rightarrow> exn + jsval" where
  "castString JUndefined = Inr JUndefined"
| "castString JNull = Inr JNull"
| "castString (JBool b) = Inr (JStr (boolean_toString b))"
| "castString (JNum n) = Inr (JStr (number_toString n))"
| "castString (JStr s) = Inr (JStr s)"
| "castString (JArray xs) = Inl CastError"
| "castString (JObject kvs) = Inl CastError"

fun update_first :: "('a \<Rightarrow> bool) \<Rightarrow> ('a \<Rightarrow> 'a) \<Rightarrow> 'a list \<Rightarrow> 'a list" where
  "update_first P f [] = []"
| "update_first P f (x # xs) = (if P x then f x # xs else x # update_first P f xs)"

fun remove_first :: "('a \<Rightarrow> bool) \<Rightarrow> 'a list \<Rightarrow> 'a list" where
  "remove_first P [] = []"
| "remove_first P (x # xs) = (if P x then xs else x # remove_first P xs)"

text \<open>\<^verbatim>\<open>new User({username, email, password})\<close>: the document gets a fresh id.\<close>

definition new_User :: "db \<Rightarrow> string \<Rightarrow> string \<Rightarrow> string \<Rightarrow> user \<times> db" where
  "new_User d un em pw =
     (\<lparr>user_id = next_oid d, username = un, email = em, password = pw\<rparr>,
      d\<lparr>next_oid := Suc (next_oid d)\<rparr>)"

text \<open>\<^verbatim>\<open>new Post({userId, text})\<close>.\<close>

definition new_Post :: "db \<Rightarrow> oid \<Rightarrow> jsval \<Rightarrow> post \<times> db" where
  "new_Post d uid txt =
     (\<lparr>post_id = next_oid d, userId = uid, text = txt\<rparr>,
      d\<lparr>next_oid := Suc (next_oid d)\<rparr>)"

text \<open>\<^verbatim>\<open>doc.save()\<close> on a new document appends it to its collection.\<close>

definition User_save :: "db \<Rightarrow> user \<Rightarrow> exn + db" where
  "User_save d u = (if connected d then Inr (d\<lparr>users := users d @ [u]\<rparr>) else Inl StoreError)"

definition Post_save :: "db \<Rightarrow> post \<Rightarrow> exn + db" where
  "Post_save d p = (if connected d then Inr (d\<lparr>posts := posts d @ [p]\<rparr>) else Inl StoreError)"

text \<open>\<^verbatim>\<open>User.findOne(filter)\<close>: the first document that satisfies the filter, or null.\<close>

definition User_findOne :: "db \<Rightarrow> (user \<Rightarrow> bool) \<Rightarrow> exn + user option" where
  "User_findOne d P = (if connected d then Inr (find P (users d)) else Inl StoreError)"

text \<open>
  \<^verbatim>\<open>User.findOne({username, password})\<close> with values taken from the request body
  as they are. A string is a condition of equality with the stored string. Any
  other JSON value (a number, \<^verbatim>\<open>null\<close>, an array, a document of query operators
  such as \<^verbatim>\<open>{"$ne": null}\<close>) is cast by mongoose and interpreted by the store's
  query language, neither of which is part of \<^verbatim>\<open>app.js\<close>: the parameter \<open>qe\<close>
  stands for them. It either raises, or yields the condition on the stored string
  that the store evaluates.
\<close>

type_synonym query_engine = "jsval \<Rightarrow> exn + (string \<Rightarrow> bool)"

fun cast_filter :: "query_engine \<Rightarrow> jsval \<Rightarrow> exn + (string \<Rightarrow> bool)" where
  "cast_filter qe (JStr t) = Inr (\<lambda>s. s = t)"
| "cast_filter qe v = qe v"

definition User_findOne_username_password ::
  "query_engine \<Rightarrow> db \<Rightarrow> jsval \<Rightarrow> jsval \<Rightarrow> exn + user option" where
  "User_findOne_username_password qe d un pw =
     (case cast_filter qe un of
        Inl error \<Rightarrow> Inl error
      | Inr username_is \<Rightarrow>
          (case cast_filter qe pw of
             Inl error \<Rightarrow> Inl error
           | Inr password_is \<Rightarrow>
               User_findOne d (\<lambda>u. username_is (user.username u) \<and> password_is (password u))))"

text \<open>\<^verbatim>\<open>Post.find(filter)\<close>: all documents that satisfy the filter.\<close>

definition Post_find :: "db \<Rightarrow> (post \<Rightarrow> bool) \<Rightarrow> exn + post list" where
  "Post_find d P = (if connected d then Inr (filter P (posts d)) else Inl StoreError)"

text \<open>
  \<^verbatim>\<open>Post.findOneAndUpdate(filter, {text}, {new: true})\<close>. The update is cast
  against the schema first, so a \<^verbatim>\<open>text\<close> that cannot be cast raises whether or
  not a document satisfies the filter. A \<^verbatim>\<open>text\<close> that is \<^verbatim>\<open>undefined\<close> is
  dropped from the update: the first document that satisfies the filter is
  returned as it is. Otherwise the cast value becomes the text of that document,
  and the updated document is returned. The result is null when no document
  satisfies the filter.
\<close>

definition Post_findOneAndUpdate ::
  "db \<Rightarrow> (post \<Rightarrow> bool) \<Rightarrow> jsval \<Rightarrow> exn + (db \<times> post option)" where
  "Post_findOneAndUpdate d P txt =
     (case castString txt of
        Inl error \<Rightarrow> Inl error
      | Inr v \<Rightarrow>
          if connected d then
            (case find P (posts d) of
               None \<Rightarrow> Inr (d, None)
             | Some p \<Rightarrow>
                 if v = JUndefined then Inr (d, Some p)
                 else Inr (d\<lparr>posts := update_first P (\<lambda>q. q\<lparr>text := v\<rparr>) (posts d)\<rparr>,
                           Some (p\<lparr>text := v\<rparr>)))
          else Inl StoreError)"

text \<open>
  \<^verbatim>\<open>Post.findOneAndDelete(filter)\<close>: removes the first document that satisfies the
  filter and returns it, or null when there is none.
\<close>

definition Post_findOneAndDelete ::
  "db \<Rightarrow> (post \<Rightarrow> bool) \<Rightarrow> exn + (db \<times> post option)" where
  "Post_findOneAndDelete d P =
     (if connected d then
        (case find P (posts d) of
           None \<Rightarrow> Inr (d, None)
         | Some p \<Rightarrow> Inr (d\<lparr>posts := remove_first P (posts d)\<rparr>, Some p))
      else Inl StoreError)"

section \<open>Credentials\<close>

text \<open>
  A credential is what \<^verbatim>\<open>jwt.sign\<close> returns: the claims and the key of its
  signature. \<^verbatim>\<open>Date.now()\<close> is an explicit clock in milliseconds; the token
  library works in whole seconds. \<^verbatim>\<open>expiresIn: "1h"\<close> is 3600 seconds.
\<close>

record claims =
  userId :: oid
  username :: string
  iat :: nat
  exp :: nat

record jwt =
  decoded :: claims
  signed_with :: string

datatype jwt_error = JsonWebTokenError | TokenExpiredError

definition expiresIn :: nat where
  "expiresIn = 60 * 60"

definition jwt_sign :: "oid \<Rightarrow> string \<Rightarrow> string \<Rightarrow> nat \<Rightarrow> jwt" where
  "jwt_sign uid un key now_ms =
     \<lparr>decoded = \<lparr>userId = uid, username = un,
                  iat = now_ms div 1000, exp = now_ms div 1000 + expiresIn\<rparr>,
      signed_with = key\<rparr>"

definition jwt_verify :: "jwt \<Rightarrow> string \<Rightarrow> nat \<Rightarrow> jwt_error + claims" where
  "jwt_verify t key now_ms =
     (if signed_with t \<noteq> key then Inl JsonWebTokenError
      else if now_ms div 1000 \<ge> exp (decoded t) then Inl TokenExpiredError
      else Inr (decoded t))"

section \<open>Requests and responses\<close>

text \<open>
  What a handler reads from \<^verbatim>\<open>req\<close>: the credential kept in the session
  (\<^verbatim>\<open>req.session.token\<close>), the clock at the time of the request, the route
  parameter and the fields of the body. The fields of the registration form are
  strings: registration is modelled on well-formed input. The login handler puts
  \<^verbatim>\<open>username\<close> and \<^verbatim>\<open>password\<close> into the store's filter as they come, so the
  body of a login request carries them as JavaScript values.
\<close>

record request =
  session_token :: "jwt option"
  now :: nat
  params_postId :: oid
  body_text :: jsval
  body_username :: string
  body_email :: string
  body_password :: string
  login_username :: jsval
  login_password :: jsval

text \<open>
  The JSON bodies the handlers send: \<^verbatim>\<open>{message}\<close>, \<^verbatim>\<open>{message, <key>: post}\<close>
  and \<^verbatim>\<open>{posts}\<close>.
\<close>

datatype body =
    Message string
  | MessagePost string string post
  | Posts "post list"

datatype response =
    Json nat body
  | Redirect string
  | SendFile string

text \<open>
  \<^verbatim>\<open>res.json\<close> without \<^verbatim>\<open>res.status\<close> answers 200, \<^verbatim>\<open>res.redirect\<close> answers 302.
\<close>

fun status :: "response \<Rightarrow> nat" where
  "status (Json n b) = n"
| "status (Redirect url) = 302"
| "status (SendFile f) = 200"

text \<open>
  Handling a request yields the store, the session's credential and the response
  after it.
\<close>

type_synonym result = "db \<times> jwt option \<times> response"

definition db_of :: "result \<Rightarrow> db" where
  "db_of r = fst r"

definition session_of :: "result \<Rightarrow> jwt option" where
  "session_of r = fst (snd r)"

definition response_of :: "result \<Rightarrow> response" where
  "response_of r = snd (snd r)"

section \<open>The guards\<close>

text \<open>
  \<^verbatim>\<open>authenticateJWT\<close> (lines 37-54) and \<^verbatim>\<open>requireAuth\<close> (lines 57-69). The
  continuation \<^verbatim>\<open>next\<close> receives the decoded claims that the source attaches as
  \<^verbatim>\<open>req.user\<close>.
\<close>

definition authenticateJWT ::
  "string \<Rightarrow> (claims \<Rightarrow> db \<Rightarrow> request \<Rightarrow> result) \<Rightarrow> db \<Rightarrow> request \<Rightarrow> result" where
  "authenticateJWT SECRET_KEY next d req =
     (case session_token req of
        None \<Rightarrow> (d, session_token req, Json 401 (Message ''Unauthorized''))
      | Some token \<Rightarrow>
          (case jwt_verify token SECRET_KEY (now req) of
             Inr user \<Rightarrow> next user d req
           | Inl error \<Rightarrow> (d, session_token req, Json 401 (Message ''Invalid token''))))"

definition requireAuth ::
  "string \<Rightarrow> (claims \<Rightarrow> db \<Rightarrow> request \<Rightarrow> result) \<Rightarrow> db \<Rightarrow> request \<Rightarrow> result" where
  "requireAuth SECRET_KEY next d req =
     (case session_token req of
        None \<Rightarrow> (d, session_token req, Redirect ''/login'')
      | Some token \<Rightarrow>
          (case jwt_verify token SECRET_KEY (now req) of
             Inr user \<Rightarrow> next user d req
           | Inl error \<Rightarrow> (d, session_token req, Redirect ''/login'')))"

section \<open>The handlers\<close>

definition internal_error :: response where
  "internal_error = Json 500 (Message ''Internal Server Error'')"

text \<open>\<^verbatim>\<open>POST /post\<close> (lines 84-104).\<close>

definition post_post :: "claims \<Rightarrow> db \<Rightarrow> request \<Rightarrow> result" where
  "post_post user d req =
     (let txt = body_text req in
      if \<not> truthy txt \<or> typeof txt \<noteq> ''string'' then
        (d, session_token req, Json 400 (Message ''Please provide valid post content''))
      else
        (case new_Post d (claims.userId user) txt of
           (newPost, d1) \<Rightarrow>
             (case Post_save d1 newPost of
                Inr d2 \<Rightarrow>
                  (d2, session_token req,
                   Json 201 (MessagePost ''Post created successfully'' ''post'' newPost))
              | Inl error \<Rightarrow> (d1, session_token req, internal_error))))"

text \<open>\<^verbatim>\<open>GET /posts\<close> (lines 106-115).\<close>

definition get_posts :: "claims \<Rightarrow> db \<Rightarrow> request \<Rightarrow> result" where
  "get_posts user d req =
     (case Post_find d (\<lambda>p. post.userId p = claims.userId user) of
        Inr ps \<Rightarrow> (d, session_token req, Json 200 (Posts ps))
      | Inl error \<Rightarrow> (d, session_token req, internal_error))"

text \<open>\<^verbatim>\<open>PUT /posts/:postId\<close> (lines 117-137).\<close>

definition put_posts :: "claims \<Rightarrow> db \<Rightarrow> request \<Rightarrow> result" where
  "put_posts user d req =
     (let postId = params_postId req; txt = body_text req in
      case Post_findOneAndUpdate d
             (\<lambda>p. post_id p = postId \<and> post.userId p = claims.userId user) txt of
        Inr (d1, None) \<Rightarrow> (d1, session_token req, Json 404 (Message ''Post not found''))
      | Inr (d1, Some p) \<Rightarrow>
          (d1, session_token req,
           Json 200 (MessagePost ''Post updated successfully'' ''updatedPost'' p))
      | Inl error \<Rightarrow> (d, session_token req, internal_error))"

text \<open>\<^verbatim>\<open>DELETE /posts/:postId\<close> (lines 139-157).\<close>

definition delete_posts :: "claims \<Rightarrow> db \<Rightarrow> request \<Rightarrow> result" where
  "delete_posts user d req =
     (let postId = params_postId req in
      case Post_findOneAndDelete d
             (\<lambda>p. post_id p = postId \<and> post.userId p = claims.userId user) of
        Inr (d1, None) \<Rightarrow> (d1, session_token req, Json 404 (Message ''Post not found''))
      | Inr (d1, Some p) \<Rightarrow>
          (d1, session_token req,
           Json 200 (MessagePost ''Post deleted successfully'' ''deletedPost'' p))
      | Inl error \<Rightarrow> (d, session_token req, internal_error))"

text \<open>\<^verbatim>\<open>GET /index\<close> (lines 159-163).\<close>

definition get_index :: "claims \<Rightarrow> db \<Rightarrow> request \<Rightarrow> result" where
  "get_index user d req = (d, session_token req, SendFile ''public/index.html'')"

text \<open>\<^verbatim>\<open>POST /register\<close> (lines 166-193).\<close>

definition post_register :: "string \<Rightarrow> db \<Rightarrow> request \<Rightarrow> result" where
  "post_register SECRET_KEY d req =
     (let un = body_username req; em = body_email req; pw = body_password req in
      case User_findOne d (\<lambda>u. user.username u = un \<or> email u = em) of
        Inl error \<Rightarrow> (d, session_token req, internal_error)
      | Inr (Some existingUser) \<Rightarrow>
          (d, session_token req, Json 400 (Message ''User already exists''))
      | Inr None \<Rightarrow>
          (case new_User d un em pw of
             (newUser, d1) \<Rightarrow>
               (case User_save d1 newUser of
                  Inl error \<Rightarrow> (d1, session_token req, internal_error)
                | Inr d2 \<Rightarrow>
                    (d2,
                     Some (jwt_sign (user_id newUser) (user.username newUser)
                             SECRET_KEY (now req)),
                     Redirect (''/index?username='' @ user.username newUser)))))"

text \<open>\<^verbatim>\<open>POST /login\<close> (lines 196-218).\<close>

definition post_login :: "query_engine \<Rightarrow> string \<Rightarrow> db \<Rightarrow> request \<Rightarrow> result" where
  "post_login qe SECRET_KEY d req =
     (let un = login_username req; pw = login_password req in
      case User_findOne_username_password qe d un pw of
        Inl error \<Rightarrow> (d, session_token req, internal_error)
      | Inr None \<Rightarrow> (d, session_token req, Json 401 (Message ''Invalid credentials''))
      | Inr (Some u) \<Rightarrow>
          (d,
           Some (jwt_sign (user_id u) (user.username u) SECRET_KEY (now req)),
           Redirect (''/index?username='' @ user.username u)))"

text \<open>\<^verbatim>\<open>GET /logout\<close> (lines 220-225): the session is destroyed.\<close>

definition get_logout :: "db \<Rightarrow> request \<Rightarrow> result" where
  "get_logout d req = (d, None, Redirect ''/login'')"

section \<open>The guarded routes\<close>

definition route_post_post :: "string \<Rightarrow> db \<Rightarrow> request \<Rightarrow> result" where
  "route_post_post SECRET_KEY = authenticateJWT SECRET_KEY post_post"

definition route_get_posts :: "string \<Rightarrow> db \<Rightarrow> request \<Rightarrow> result" where
  "route_get_posts SECRET_KEY = authenticateJWT SECRET_KEY get_posts"

definition route_put_posts :: "string \<Rightarrow> db \<Rightarrow> request \<Rightarrow> result" where
  "route_put_posts SECRET_KEY = authenticateJWT SECRET_KEY put_posts"

definition route_delete_posts :: "string \<Rightarrow> db \<Rightarrow> request \<Rightarrow> result" where
  "route_delete_posts SECRET_KEY = authenticateJWT SECRET_KEY delete_posts"

definition route_get_index :: "string \<Rightarrow> db \<Rightarrow> request \<Rightarrow> result" where
  "route_get_index SECRET_KEY = requireAuth SECRET_KEY get_index"

text \<open>A request is authenticated as \<open>user\<close> when its session's credential verifies.\<close>

definition authenticated :: "string \<Rightarrow> request \<Rightarrow> claims \<Rightarrow> bool" where
  "authenticated SECRET_KEY req user =
     (case session_token req of
        None \<Rightarrow> False
      | Some token \<Rightarrow> jwt_verify token SECRET_KEY (now req) = Inr user)"

section \<open>Example data\<close>

text \<open>
  A small store with two users and one post each, a credential issued to the first
  user at time 0, and a request made in her session five seconds later. The
  statements below are evaluated on these.
\<close>

definition K0 :: string where
  "K0 = ''s3cret''"

definition alice :: user where
  "alice = \<lparr>user_id = 1, username = ''alice'', email = ''a@x.com'', password = ''pw''\<rparr>"

definition bob :: user where
  "bob = \<lparr>user_id = 2, username = ''bob'', email = ''b@x.com'', password = ''hunter2''\<rparr>"

definition post_a :: post where
  "post_a = \<lparr>post_id = 10, userId = 1, text = JStr ''hi''\<rparr>"

definition post_b :: post where
  "post_b = \<lparr>post_id = 11, userId = 2, text = JStr ''yo''\<rparr>"

definition db0 :: db where
  "db0 = \<lparr>users = [alice, bob], posts = [post_a, post_b], next_oid = 12, connected = True\<rparr>"

definition alice_claims :: claims where
  "alice_claims = \<lparr>userId = 1, username = ''alice'', iat = 0, exp = 3600\<rparr>"

definition alice_token :: jwt where
  "alice_token = \<lparr>decoded = alice_claims, signed_with = K0\<rparr>"

definition req0 :: request where
  "req0 = \<lparr>session_token = Some alice_token, now = 5000, params_postId = 11,
           body_text = JStr ''edited'', body_username = ''carol'',
           body_email = ''c@x.com'', body_password = ''pw3'',
           login_username = JStr ''carol'', login_password = JStr ''pw3''\<rparr>"

lemmas example_defs =
  K0_def alice_def bob_def post_a_def post_b_def db0_def alice_claims_def alice_token_def
  req0_def

lemmas model_defs =
  authenticated_def jwt_verify_def jwt_sign_def expiresIn_def
  authenticateJWT_def requireAuth_def
  route_post_post_def route_get_posts_def route_put_posts_def route_delete_posts_def
  route_get_index_def
  post_post_def get_posts_def put_posts_def delete_posts_def get_index_def
  post_register_def post_login_def
  new_Post_def new_User_def Post_save_def User_save_def User_findOne_def Post_find_def
  User_findOne_username_password_def Post_findOneAndUpdate_def Post_findOneAndDelete_def
  number_toString_def boolean_toString_def decimal.simps
  internal_error_def db_of_def session_of_def response_of_def Let_def

section \<open>Auxiliary facts\<close>

lemma not_valid_content_iff:
  "(\<not> truthy v \<or> typeof v \<noteq> ''string'') \<longleftrightarrow> (typeof v \<noteq> ''string'' \<or> v = JStr [])"
  by (cases v) auto


lemma find_append_None:
  "find P xs = None \<Longrightarrow> find P (xs @ ys) = find P ys"
  by (induction xs) (auto split: if_splits)

lemma authenticateJWT_pass:
  "authenticated K req user \<Longrightarrow> authenticateJWT K next d req = next user d req"
  by (auto simp: authenticated_def authenticateJWT_def split: option.splits)

lemma requireAuth_pass:
  "authenticated K req user \<Longrightarrow> requireAuth K next d req = next user d req"
  by (auto simp: authenticated_def requireAuth_def split: option.splits)



lemma get_posts_connected:
  "connected d \<Longrightarrow>
     get_posts user d req =
       (d, session_token req,
        Json 200 (Posts (filter (\<lambda>p. post.userId p = claims.userId user) (posts d))))"
  by (simp add: get_posts_def Post_find_def)

lemma post_post_created:
  assumes "post_post creator d0 req = (d, s, Json 201 b)"
  shows "connected d0 \<and>
         d = d0\<lparr>next_oid := Suc (next_oid d0),
                posts := posts d0 @ [\<lparr>post_id = next_oid d0, userId = claims.userId creator,
                                      text = body_text req\<rparr>]\<rparr> \<and>
         b = MessagePost ''Post created successfully'' ''post''
               \<lparr>post_id = next_oid d0, userId = claims.userId creator, text = body_text req\<rparr>"
  using assms
  by (auto simp: post_post_def new_Post_def Post_save_def internal_error_def Let_def
           split: if_splits)

lemma post_register_connected:
  assumes "connected d"
  shows "post_register K d req =
     (if \<exists>u \<in> set (users d). user.username u = body_username req \<or> email u = body_email req
      then (d, session_token req, Json 400 (Message ''User already exists''))
      else (d\<lparr>next_oid := Suc (next_oid d),
               users := users d @ [\<lparr>user_id = next_oid d, username = body_username req,
                                    email = body_email req, password = body_password req\<rparr>]\<rparr>,
            Some (jwt_sign (next_oid d) (body_username req) K (now req)),
            Redirect (''/index?username='' @ body_username req)))"
proof (cases "find (\<lambda>u. user.username u = body_username req \<or> email u = body_email req)
                (users d)")
  case None
  then have "\<not> (\<exists>u \<in> set (users d).
                 user.username u = body_username req \<or> email u = body_email req)"
    by (simp add: find_None_iff)
  with None assms show ?thesis
    by (simp add: post_register_def User_findOne_def new_User_def User_save_def Let_def)
next
  case (Some u)
  then have "\<exists>u \<in> set (users d). user.username u = body_username req \<or> email u = body_email req"
    by (auto simp: find_Some_iff)
  with Some assms show ?thesis
    by (simp add: post_register_def User_findOne_def Let_def)
qed

lemma post_login_strings:
  assumes "connected d" and "login_username req = JStr un" and "login_password req = JStr pw"
  shows "post_login qe K d req =
     (case find (\<lambda>u. user.username u = un \<and> password u = pw) (users d) of
        None \<Rightarrow> (d, session_token req, Json 401 (Message ''Invalid credentials''))
      | Some u \<Rightarrow> (d, Some (jwt_sign (user_id u) (user.username u) K (now req)),
                   Redirect (''/index?username='' @ user.username u)))"
  using assms
  by (simp add: post_login_def User_findOne_username_password_def User_findOne_def Let_def
        split: option.splits)

lemma handlers_keep_session:
  "session_of (post_post user d req) = session_token req"
  "session_of (get_posts user d req) = session_token req"
  "session_of (put_posts user d req) = session_token req"
  "session_of (delete_posts user d req) = session_token req"
  "session_of (get_index user d req) = session_token req"
  by (auto simp: session_of_def post_post_def get_posts_def put_posts_def delete_posts_def
        get_index_def Let_def split: sum.splits option.splits prod.splits)

lemma guards_keep_session:
  assumes "\<And>user. session_of (next user d req) = session_token req"
  shows "session_of (authenticateJWT K next d req) = session_token req"
    and "session_of (requireAuth K next d req) = session_token req"
  using assms
  by (auto simp: authenticateJWT_def requireAuth_def session_of_def
           split: option.splits sum.splits)

lemma jwt_verify_expired:
  assumes "issued + 3600000 < now_ms"
  shows "\<exists>e. jwt_verify (jwt_sign uid un key issued) K now_ms = Inl e"
proof -
  have "issued div 1000 + 3600 \<le> now_ms div 1000"
    using assms by linarith
  then show ?thesis
    by (simp add: jwt_verify_def jwt_sign_def expiresIn_def)
qed

lemma issued_by_register:
  assumes "status (response_of (post_register K d req)) = 302"
  shows "\<exists>uid un. session_of (post_register K d req) = Some (jwt_sign uid un K (now req))"
  using assms
  by (auto simp: post_register_def User_findOne_def new_User_def User_save_def Let_def
        response_of_def session_of_def internal_error_def split: if_splits option.splits)

lemma issued_by_login:
  assumes "status (response_of (post_login qe K d req)) = 302"
  shows "\<exists>uid un. session_of (post_login qe K d req) = Some (jwt_sign uid un K (now req))"
  using assms
  by (auto simp: post_login_def Let_def response_of_def session_of_def internal_error_def
        split: sum.splits option.splits)

lemma authenticated_req0: "authenticated K0 req0 alice_claims"
  by (simp add: authenticated_def jwt_verify_def example_defs)

section \<open>Ownership-scoped update and delete\<close>




section \<open>Listing\<close>

text \<open>
  C2. An authenticated \<^verbatim>\<open>GET /posts\<close> against a reachable store returns exactly
  the stored posts whose \<^verbatim>\<open>userId\<close> is the requester's decoded \<^verbatim>\<open>userId\<close>. In
  particular a post that was just created is listed for a requester if and only
  if the requester is the user who created it.
\<close>

theorem list_exactly_own_posts:
  assumes auth: "authenticated K req user" and up: "connected d"
  shows "route_get_posts K d req =
           (d, session_token req,
            Json 200 (Posts (filter (\<lambda>p. post.userId p = claims.userId user) (posts d)))) \<and>
         set (filter (\<lambda>p. post.userId p = claims.userId user) (posts d)) =
           {p \<in> set (posts d). post.userId p = claims.userId user} \<and>
         (authenticated K req_c creator \<and>
          route_post_post K d0 req_c = (d, s, Json 201 (MessagePost m k newPost)) \<longrightarrow>
            (newPost \<in> set (filter (\<lambda>p. post.userId p = claims.userId user) (posts d))
               \<longleftrightarrow> claims.userId creator = claims.userId user))"
proof (intro conjI impI)
  show "route_get_posts K d req =
           (d, session_token req,
            Json 200 (Posts (filter (\<lambda>p. post.userId p = claims.userId user) (posts d))))"
    by (simp add: route_get_posts_def authenticateJWT_pass [OF auth] get_posts_connected [OF up])
next
  show "set (filter (\<lambda>p. post.userId p = claims.userId user) (posts d)) =
           {p \<in> set (posts d). post.userId p = claims.userId user}"
    by simp
next
  assume h: "authenticated K req_c creator \<and>
             route_post_post K d0 req_c = (d, s, Json 201 (MessagePost m k newPost))"
  then have "post_post creator d0 req_c = (d, s, Json 201 (MessagePost m k newPost))"
    using authenticateJWT_pass [of K req_c creator post_post d0]
    by (simp add: route_post_post_def)
  from post_post_created [OF this]
  have "posts d = posts d0 @ [newPost]" and "post.userId newPost = claims.userId creator"
    by auto
  then show "newPost \<in> set (filter (\<lambda>p. post.userId p = claims.userId user) (posts d))
               \<longleftrightarrow> claims.userId creator = claims.userId user"
    by auto
qed

theorem list_exactly_own_posts_witness:
  "authenticated K0 req0 alice_claims \<and> connected db0 \<and>
   route_get_posts K0 db0 req0 = (db0, Some alice_token, Json 200 (Posts [post_a])) \<and>
   route_post_post K0 db0 req0 =
     (db0\<lparr>posts := [post_a, post_b, \<lparr>post_id = 12, userId = 1, text = JStr ''edited''\<rparr>],
          next_oid := 13\<rparr>,
      Some alice_token,
      Json 201 (MessagePost ''Post created successfully'' ''post''
                  \<lparr>post_id = 12, userId = 1, text = JStr ''edited''\<rparr>)) \<and>
   route_get_posts K0
       (db0\<lparr>posts := [post_a, post_b, \<lparr>post_id = 12, userId = 1, text = JStr ''edited''\<rparr>],
            next_oid := 13\<rparr>) req0 =
     (db0\<lparr>posts := [post_a, post_b, \<lparr>post_id = 12, userId = 1, text = JStr ''edited''\<rparr>],
          next_oid := 13\<rparr>,
      Some alice_token,
      Json 200 (Posts [post_a, \<lparr>post_id = 12, userId = 1, text = JStr ''edited''\<rparr>]))"
proof -
  let ?d1 = "db0\<lparr>posts := [post_a, post_b, \<lparr>post_id = 12, userId = 1, text = JStr ''edited''\<rparr>],
                 next_oid := 13\<rparr>"
  have up: "connected db0" "connected ?d1"
    by (simp_all add: db0_def)
  have created: "route_post_post K0 db0 req0 =
      (?d1, Some alice_token,
       Json 201 (MessagePost ''Post created successfully'' ''post''
                   \<lparr>post_id = 12, userId = 1, text = JStr ''edited''\<rparr>))"
    by (simp add: model_defs example_defs)
  show ?thesis
    using list_exactly_own_posts [OF authenticated_req0 up(1)]
      list_exactly_own_posts [OF authenticated_req0 up(2), of req0 alice_claims db0
        "Some alice_token" "''Post created successfully''" "''post''"
        "\<lparr>post_id = 12, userId = 1, text = JStr ''edited''\<rparr>"]
      authenticated_req0 up created
    by (simp add: example_defs)
qed

section \<open>Requests without a valid credential\<close>

text \<open>
  C3. When the session holds no credential, or one that fails verification, the
  strict guard answers 401 with a JSON message and does not run the handler behind
  it (the result does not depend on the handler, and store and session are as
  before); this holds for the four post routes. The redirecting guard, and with it
  \<^verbatim>\<open>GET /index\<close>, redirects to \<^verbatim>\<open>/login\<close>.
\<close>

theorem guards_reject_without_valid_credential:
  assumes "session_token req = None \<or>
           (\<exists>t e. session_token req = Some t \<and> jwt_verify t K (now req) = Inl e)"
  shows "(\<exists>msg. authenticateJWT K next d req = (d, session_token req, Json 401 (Message msg))) \<and>
         (\<forall>R \<in> {route_post_post, route_get_posts, route_put_posts, route_delete_posts}.
            \<exists>msg. R K d req = (d, session_token req, Json 401 (Message msg))) \<and>
         requireAuth K next d req = (d, session_token req, Redirect ''/login'') \<and>
         route_get_index K d req = (d, session_token req, Redirect ''/login'')"
  using assms
  by (auto simp: authenticateJWT_def requireAuth_def route_post_post_def route_get_posts_def
        route_put_posts_def route_delete_posts_def route_get_index_def)

theorem guards_reject_without_valid_credential_witness:
  "session_token (req0\<lparr>session_token := None\<rparr>) = None \<and>
   jwt_verify alice_token K0 (now (req0\<lparr>now := 3600000\<rparr>)) = Inl TokenExpiredError \<and>
   jwt_verify alice_token ''other key'' (now req0) = Inl JsonWebTokenError \<and>
   route_post_post K0 db0 (req0\<lparr>session_token := None\<rparr>) =
     (db0, None, Json 401 (Message ''Unauthorized'')) \<and>
   route_put_posts K0 db0 (req0\<lparr>now := 3600000\<rparr>) =
     (db0, Some alice_token, Json 401 (Message ''Invalid token'')) \<and>
   route_delete_posts ''other key'' db0 req0 =
     (db0, Some alice_token, Json 401 (Message ''Invalid token'')) \<and>
   route_get_posts K0 db0 (req0\<lparr>session_token := None\<rparr>) =
     (db0, None, Json 401 (Message ''Unauthorized'')) \<and>
   route_get_index K0 db0 (req0\<lparr>session_token := None\<rparr>) = (db0, None, Redirect ''/login'') \<and>
   route_get_index K0 db0 (req0\<lparr>now := 3600000\<rparr>) =
     (db0, Some alice_token, Redirect ''/login'')"
proof -
  have h1: "session_token (req0\<lparr>session_token := None\<rparr>) = None"
    by simp
  have h2: "session_token (req0\<lparr>now := 3600000\<rparr>) = Some alice_token \<and>
            jwt_verify alice_token K0 (now (req0\<lparr>now := 3600000\<rparr>)) = Inl TokenExpiredError"
    by (simp add: jwt_verify_def example_defs)
  have h3: "session_token req0 = Some alice_token \<and>
            jwt_verify alice_token ''other key'' (now req0) = Inl JsonWebTokenError"
    by (simp add: jwt_verify_def example_defs)
  from h2 have h2': "session_token (req0\<lparr>now := 3600000\<rparr>) = None \<or>
      (\<exists>t e. session_token (req0\<lparr>now := 3600000\<rparr>) = Some t \<and>
             jwt_verify t K0 (now (req0\<lparr>now := 3600000\<rparr>)) = Inl e)"
    by blast
  from h3 have h3': "session_token req0 = None \<or>
      (\<exists>t e. session_token req0 = Some t \<and> jwt_verify t ''other key'' (now req0) = Inl e)"
    by blast
  show ?thesis
    using guards_reject_without_valid_credential
            [of "req0\<lparr>session_token := None\<rparr>" K0 post_post db0]
      guards_reject_without_valid_credential [OF h2', of post_post db0]
      guards_reject_without_valid_credential [OF h3', of post_post db0]
      h1 h2 h3
    by (simp add: model_defs)
qed

section \<open>Registration and login\<close>

text \<open>
  C4. Against a reachable store, \<^verbatim>\<open>POST /register\<close> answers 400
  \<^verbatim>\<open>User already exists\<close> whenever a stored user has the same username or the same
  email, and then stores nothing and leaves the session's credential alone.
  Otherwise it appends the user record with the password as given, puts a newly
  signed credential into the session and redirects.
\<close>

theorem register_conflict_or_store:
  assumes "connected d"
  shows "((\<exists>u \<in> set (users d).
             user.username u = body_username req \<or> email u = body_email req) \<longrightarrow>
            post_register K d req =
              (d, session_token req, Json 400 (Message ''User already exists''))) \<and>
         (\<not> (\<exists>u \<in> set (users d).
                user.username u = body_username req \<or> email u = body_email req) \<longrightarrow>
            post_register K d req =
              (d\<lparr>next_oid := Suc (next_oid d),
                 users := users d @ [\<lparr>user_id = next_oid d, username = body_username req,
                                      email = body_email req,
                                      password = body_password req\<rparr>]\<rparr>,
               Some (jwt_sign (next_oid d) (body_username req) K (now req)),
               Redirect (''/index?username='' @ body_username req)))"
  by (simp add: post_register_connected [OF assms])

theorem register_conflict_or_store_witness:
  "connected db0 \<and>
   user.username alice = body_username (req0\<lparr>body_username := ''alice''\<rparr>) \<and>
   email bob = body_email (req0\<lparr>body_email := ''b@x.com''\<rparr>) \<and>
   post_register K0 db0 (req0\<lparr>body_username := ''alice''\<rparr>) =
     (db0, Some alice_token, Json 400 (Message ''User already exists'')) \<and>
   post_register K0 db0 (req0\<lparr>body_email := ''b@x.com''\<rparr>) =
     (db0, Some alice_token, Json 400 (Message ''User already exists'')) \<and>
   post_register K0 db0 req0 =
     (db0\<lparr>users := [alice, bob,
                     \<lparr>user_id = 12, username = ''carol'', email = ''c@x.com'',
                      password = ''pw3''\<rparr>],
          next_oid := 13\<rparr>,
      Some \<lparr>decoded = \<lparr>userId = 12, username = ''carol'', iat = 5, exp = 3605\<rparr>,
            signed_with = K0\<rparr>,
      Redirect ''/index?username=carol'')"
proof -
  have up: "connected db0"
    by (simp add: db0_def)
  have dup1: "\<exists>u \<in> set (users db0).
      user.username u = body_username (req0\<lparr>body_username := ''alice''\<rparr>) \<or>
      email u = body_email (req0\<lparr>body_username := ''alice''\<rparr>)"
    by (simp add: example_defs)
  have dup2: "\<exists>u \<in> set (users db0).
      user.username u = body_username (req0\<lparr>body_email := ''b@x.com''\<rparr>) \<or>
      email u = body_email (req0\<lparr>body_email := ''b@x.com''\<rparr>)"
    by (simp add: example_defs)
  have fresh: "\<not> (\<exists>u \<in> set (users db0).
      user.username u = body_username req0 \<or> email u = body_email req0)"
    by (simp add: example_defs)
  show ?thesis
    using register_conflict_or_store [OF up, of "req0\<lparr>body_username := ''alice''\<rparr>" K0]
      register_conflict_or_store [OF up, of "req0\<lparr>body_email := ''b@x.com''\<rparr>" K0]
      register_conflict_or_store [OF up, of req0 K0]
      up dup1 dup2 fresh
    by (simp add: example_defs jwt_sign_def expiresIn_def)
qed

text \<open>
  C5. \<^verbatim>\<open>POST /login\<close> puts the body's \<^verbatim>\<open>username\<close> and \<^verbatim>\<open>password\<close> into the
  filter of \<^verbatim>\<open>User.findOne\<close> without checking that they are strings. When the
  password is the operator document \<^verbatim>\<open>{"$ne": null}\<close>, which the store reads as a
  condition that every stored string satisfies, the request logs in as the first
  user with the given username, whatever that user's password is: it redirects and
  puts a credential for that user into the session, where the claim requires 401.
\<close>

theorem login_operator_document_skips_password:
  assumes "connected d"
    and "login_username req = JStr name"
    and "login_password req = JObject [(''$ne'', JNull)]"
    and "qe (JObject [(''$ne'', JNull)]) = Inr (\<lambda>s. True)"
    and "find (\<lambda>u. user.username u = name) (users d) = Some u"
  shows "post_login qe K d req =
           (d, Some (jwt_sign (user_id u) name K (now req)),
            Redirect (''/index?username='' @ name))"
proof -
  have "user.username u = name"
    using assms(5) by (auto simp: find_Some_iff)
  then show ?thesis
    using assms
    by (simp add: post_login_def User_findOne_username_password_def User_findOne_def Let_def)
qed

theorem login_operator_document_skips_password_witness:
  "connected db0 \<and>
   find (\<lambda>u. user.username u = ''bob'') (users db0) = Some bob \<and>
   password bob = ''hunter2'' \<and>
   JObject [(''$ne'', JNull)] \<noteq> JStr (password bob) \<and>
   post_login (\<lambda>v. Inr (\<lambda>s. True)) K0 db0
       (req0\<lparr>login_username := JStr ''bob'', login_password := JObject [(''$ne'', JNull)]\<rparr>) =
     (db0,
      Some \<lparr>decoded = \<lparr>userId = 2, username = ''bob'', iat = 5, exp = 3605\<rparr>,
            signed_with = K0\<rparr>,
      Redirect ''/index?username=bob'')"
proof -
  let ?r = "req0\<lparr>login_username := JStr ''bob'', login_password := JObject [(''$ne'', JNull)]\<rparr>"
  have up: "connected db0"
    by (simp add: db0_def)
  have un: "login_username ?r = JStr ''bob''" and pw: "login_password ?r = JObject [(''$ne'', JNull)]"
    by simp_all
  have qe: "(\<lambda>v. Inr (\<lambda>s. True)) (JObject [(''$ne'', JNull)]) = (Inr (\<lambda>s. True) :: exn + (string \<Rightarrow> bool))"
    by simp
  have u: "find (\<lambda>u. user.username u = ''bob'') (users db0) = Some bob"
    by (simp add: example_defs)
  show ?thesis
    using login_operator_document_skips_password [OF up un pw qe u, where K = K0] up u
    by (simp add: example_defs jwt_sign_def expiresIn_def)
qed

text \<open>
  C7. When no stored user has the username or the email, and the store is
  reachable, \<^verbatim>\<open>POST /register\<close> succeeds, and a following \<^verbatim>\<open>POST /login\<close> with the
  same username and password against the resulting store succeeds as well, with a
  credential for the user just registered.
\<close>

theorem register_then_login:
  assumes up: "connected d"
    and fresh: "\<not> (\<exists>u \<in> set (users d).
                    user.username u = body_username req \<or> email u = body_email req)"
    and same: "login_username req2 = JStr (body_username req)"
      "login_password req2 = JStr (body_password req)"
  shows "status (response_of (post_register K d req)) = 302 \<and>
         post_login qe K (db_of (post_register K d req)) req2 =
           (db_of (post_register K d req),
            Some (jwt_sign (next_oid d) (body_username req) K (now req2)),
            Redirect (''/index?username='' @ body_username req))"
proof -
  let ?new = "\<lparr>user_id = next_oid d, username = body_username req,
               email = body_email req, password = body_password req\<rparr>"
  let ?d1 = "d\<lparr>next_oid := Suc (next_oid d), users := users d @ [?new]\<rparr>"
  have reg: "post_register K d req =
               (?d1, Some (jwt_sign (next_oid d) (body_username req) K (now req)),
                Redirect (''/index?username='' @ body_username req))"
    using fresh by (simp add: post_register_connected [OF up])
  have up1: "connected ?d1"
    using up by simp
  have "find (\<lambda>u. user.username u = body_username req \<and> password u = body_password req)
          (users d) = None"
    using fresh by (auto simp: find_None_iff)
  then have "find (\<lambda>u. user.username u = body_username req \<and> password u = body_password req)
               (users ?d1) = Some ?new"
    by (simp add: find_append_None)
  then have "post_login qe K ?d1 req2 =
               (?d1, Some (jwt_sign (next_oid d) (body_username req) K (now req2)),
                Redirect (''/index?username='' @ body_username req))"
    by (simp add: post_login_strings [OF up1 same])
  with reg show ?thesis
    by (simp add: db_of_def response_of_def)
qed

theorem register_then_login_witness:
  "connected db0 \<and>
   status (response_of (post_register K0 db0 req0)) = 302 \<and>
   login_username (req0\<lparr>now := 9000\<rparr>) = JStr (body_username req0) \<and>
   login_password (req0\<lparr>now := 9000\<rparr>) = JStr (body_password req0) \<and>
   post_login (\<lambda>v. Inl CastError) K0 (db_of (post_register K0 db0 req0))
       (req0\<lparr>now := 9000\<rparr>) =
     (db0\<lparr>users := [alice, bob,
                     \<lparr>user_id = 12, username = ''carol'', email = ''c@x.com'',
                      password = ''pw3''\<rparr>],
          next_oid := 13\<rparr>,
      Some \<lparr>decoded = \<lparr>userId = 12, username = ''carol'', iat = 9, exp = 3609\<rparr>,
            signed_with = K0\<rparr>,
      Redirect ''/index?username=carol'')"
proof -
  have up: "connected db0"
    by (simp add: db0_def)
  have fresh: "\<not> (\<exists>u \<in> set (users db0).
      user.username u = body_username req0 \<or> email u = body_email req0)"
    by (simp add: example_defs)
  have reg: "db_of (post_register K0 db0 req0) =
      db0\<lparr>users := [alice, bob,
                     \<lparr>user_id = 12, username = ''carol'', email = ''c@x.com'',
                      password = ''pw3''\<rparr>],
          next_oid := 13\<rparr>"
    by (simp add: model_defs example_defs)
  have same: "login_username (req0\<lparr>now := 9000\<rparr>) = JStr (body_username req0)"
    "login_password (req0\<lparr>now := 9000\<rparr>) = JStr (body_password req0)"
    by (simp_all add: req0_def)
  show ?thesis
    using register_then_login [OF up fresh same, where qe = "\<lambda>v. Inl CastError" and K = K0] up reg same
    by (simp add: example_defs jwt_sign_def expiresIn_def)
qed

section \<open>Lifetime of a credential\<close>

text \<open>
  C8. A credential put into the session by a successful registration or login is
  issued at the time of the request and expires exactly 3600 seconds later. No
  guarded route writes the session's credential, so it is never refreshed. A
  guarded request that presents a credential issued more than one hour (3600000
  milliseconds) ago is rejected: 401 from the strict guard on the post routes, with
  the store untouched, and a redirect to \<^verbatim>\<open>/login\<close> from \<^verbatim>\<open>GET /index\<close>.
\<close>

theorem credential_expires_after_one_hour:
  "(\<forall>r \<in> {post_register K d req, post_login qe K d req}.
      status (response_of r) = 302 \<longrightarrow>
      (\<exists>t. session_of r = Some t \<and> iat (decoded t) = now req div 1000 \<and>
           exp (decoded t) = iat (decoded t) + 3600)) \<and>
   (\<forall>R \<in> {route_post_post, route_get_posts, route_put_posts, route_delete_posts,
           route_get_index}.
      session_of (R K d req) = session_token req) \<and>
   (session_token req = Some (jwt_sign uid un key issued) \<and> issued + 3600000 < now req \<longrightarrow>
      (\<forall>R \<in> {route_post_post, route_get_posts, route_put_posts, route_delete_posts}.
         \<exists>msg. R K d req = (d, session_token req, Json 401 (Message msg))) \<and>
      route_get_index K d req = (d, session_token req, Redirect ''/login''))"
proof (intro conjI impI)
  show "\<forall>r \<in> {post_register K d req, post_login qe K d req}.
      status (response_of r) = 302 \<longrightarrow>
      (\<exists>t. session_of r = Some t \<and> iat (decoded t) = now req div 1000 \<and>
           exp (decoded t) = iat (decoded t) + 3600)"
    using issued_by_register [of K d req] issued_by_login [of qe K d req]
    by (auto simp: jwt_sign_def expiresIn_def)
next
  show "\<forall>R \<in> {route_post_post, route_get_posts, route_put_posts, route_delete_posts,
           route_get_index}.
      session_of (R K d req) = session_token req"
    by (simp add: route_post_post_def route_get_posts_def route_put_posts_def
          route_delete_posts_def route_get_index_def guards_keep_session handlers_keep_session)
next
  assume h: "session_token req = Some (jwt_sign uid un key issued) \<and>
             issued + 3600000 < now req"
  then obtain e where e: "jwt_verify (jwt_sign uid un key issued) K (now req) = Inl e"
    using jwt_verify_expired by blast
  with h show "\<forall>R \<in> {route_post_post, route_get_posts, route_put_posts, route_delete_posts}.
         \<exists>msg. R K d req = (d, session_token req, Json 401 (Message msg))"
    by (simp add: route_post_post_def route_get_posts_def route_put_posts_def
          route_delete_posts_def authenticateJWT_def)
  from h e show "route_get_index K d req = (d, session_token req, Redirect ''/login'')"
    by (simp add: route_get_index_def requireAuth_def)
qed

theorem credential_expires_after_one_hour_witness:
  "status (response_of (post_register K0 db0 req0)) = 302 \<and>
   session_of (post_register K0 db0 req0) =
     Some \<lparr>decoded = \<lparr>userId = 12, username = ''carol'', iat = 5, exp = 3605\<rparr>,
           signed_with = K0\<rparr> \<and>
   status (response_of
     (post_login (\<lambda>v. Inl CastError) K0 db0
        (req0\<lparr>login_username := JStr ''alice'', login_password := JStr ''pw''\<rparr>))) = 302 \<and>
   session_of
     (post_login (\<lambda>v. Inl CastError) K0 db0
        (req0\<lparr>login_username := JStr ''alice'', login_password := JStr ''pw''\<rparr>)) =
     Some \<lparr>decoded = \<lparr>userId = 1, username = ''alice'', iat = 5, exp = 3605\<rparr>,
           signed_with = K0\<rparr> \<and>
   session_of (route_post_post K0 db0 req0) = Some alice_token \<and>
   session_of (route_get_index K0 db0 req0) = Some alice_token \<and>
   session_token (req0\<lparr>now := 3600001\<rparr>) = Some (jwt_sign 1 ''alice'' K0 0) \<and>
   (0::nat) + 3600000 < now (req0\<lparr>now := 3600001\<rparr>) \<and>
   route_post_post K0 db0 (req0\<lparr>now := 3600001\<rparr>) =
     (db0, Some alice_token, Json 401 (Message ''Invalid token'')) \<and>
   route_get_posts K0 db0 (req0\<lparr>now := 3600001\<rparr>) =
     (db0, Some alice_token, Json 401 (Message ''Invalid token'')) \<and>
   route_put_posts K0 db0 (req0\<lparr>now := 3600001\<rparr>) =
     (db0, Some alice_token, Json 401 (Message ''Invalid token'')) \<and>
   route_delete_posts K0 db0 (req0\<lparr>now := 3600001\<rparr>) =
     (db0, Some alice_token, Json 401 (Message ''Invalid token'')) \<and>
   route_get_index K0 db0 (req0\<lparr>now := 3600001\<rparr>) =
     (db0, Some alice_token, Redirect ''/login'')"
proof -
  let ?login = "req0\<lparr>login_username := JStr ''alice'', login_password := JStr ''pw''\<rparr>"
  let ?late = "req0\<lparr>now := 3600001\<rparr>"
  have ok: "status (response_of (post_register K0 db0 req0)) = 302"
      "status (response_of (post_login (\<lambda>v. Inl CastError) K0 db0 ?login)) = 302"
    by (simp_all add: model_defs example_defs)
  have old: "session_token ?late = Some (jwt_sign 1 ''alice'' K0 0) \<and>
             (0::nat) + 3600000 < now ?late"
    by (simp add: example_defs jwt_sign_def expiresIn_def)
  have s: "session_token req0 = Some alice_token" "session_token ?late = Some alice_token"
    by (simp_all add: req0_def)
  show ?thesis
    using credential_expires_after_one_hour
            [where K = K0 and d = db0 and req = req0 and qe = "\<lambda>v. Inl CastError"
               and uid = 1 and un = "''alice''" and key = K0 and issued = 0]
      credential_expires_after_one_hour
            [where K = K0 and d = db0 and req = ?login and qe = "\<lambda>v. Inl CastError"
               and uid = 1 and un = "''alice''" and key = K0 and issued = 0]
      credential_expires_after_one_hour
            [where K = K0 and d = db0 and req = ?late and qe = "\<lambda>v. Inl CastError"
               and uid = 1 and un = "''alice''" and key = K0 and issued = 0]
      ok old s
    by (simp add: model_defs example_defs)
qed

section \<open>Validation of the post text\<close>




text \<open>
  C6, as amended. With the requester authenticated, \<^verbatim>\<open>POST /post\<close> answers 400 and
  leaves the store unchanged when \<^verbatim>\<open>text\<close> is absent, is not a string, or is the
  empty string. For a non-empty string and a reachable store it appends a post
  with a fresh id, the requester's decoded \<^verbatim>\<open>userId\<close> and that text, and answers
  201 with the new post.
\<close>

theorem create_validates_text:
  assumes auth: "authenticated K req user"
  shows "(typeof (body_text req) \<noteq> ''string'' \<or> body_text req = JStr [] \<longrightarrow>
            route_post_post K d req =
              (d, session_token req, Json 400 (Message ''Please provide valid post content''))) \<and>
         (typeof (body_text req) = ''string'' \<and> body_text req \<noteq> JStr [] \<and> connected d \<longrightarrow>
            route_post_post K d req =
              (d\<lparr>next_oid := Suc (next_oid d),
                 posts := posts d @ [\<lparr>post_id = next_oid d, userId = claims.userId user,
                                      text = body_text req\<rparr>]\<rparr>,
               session_token req,
               Json 201 (MessagePost ''Post created successfully'' ''post''
                           \<lparr>post_id = next_oid d, userId = claims.userId user,
                            text = body_text req\<rparr>)))"
  using not_valid_content_iff [of "body_text req"]
  by (auto simp: route_post_post_def authenticateJWT_pass [OF auth] post_post_def
        new_Post_def Post_save_def Let_def)

theorem create_validates_text_witness:
  "authenticated K0 req0 alice_claims \<and>
   authenticated K0 (req0\<lparr>body_text := JUndefined\<rparr>) alice_claims \<and>
   authenticated K0 (req0\<lparr>body_text := JNum 5\<rparr>) alice_claims \<and>
   typeof JUndefined \<noteq> ''string'' \<and> typeof (JNum 5) \<noteq> ''string'' \<and>
   typeof (body_text req0) = ''string'' \<and> body_text req0 \<noteq> JStr [] \<and> connected db0 \<and>
   route_post_post K0 db0 (req0\<lparr>body_text := JUndefined\<rparr>) =
     (db0, Some alice_token, Json 400 (Message ''Please provide valid post content'')) \<and>
   route_post_post K0 db0 (req0\<lparr>body_text := JNum 5\<rparr>) =
     (db0, Some alice_token, Json 400 (Message ''Please provide valid post content'')) \<and>
   route_post_post K0 db0 req0 =
     (db0\<lparr>posts := [post_a, post_b, \<lparr>post_id = 12, userId = 1, text = JStr ''edited''\<rparr>],
          next_oid := 13\<rparr>,
      Some alice_token,
      Json 201 (MessagePost ''Post created successfully'' ''post''
                  \<lparr>post_id = 12, userId = 1, text = JStr ''edited''\<rparr>))"
proof -
  have auth: "authenticated K0 (req0\<lparr>body_text := JUndefined\<rparr>) alice_claims"
      "authenticated K0 (req0\<lparr>body_text := JNum 5\<rparr>) alice_claims"
    by (simp_all add: authenticated_def jwt_verify_def example_defs)
  have hyp: "typeof (body_text req0) = ''string'' \<and> body_text req0 \<noteq> JStr [] \<and> connected db0"
    by (simp add: example_defs)
  show ?thesis
    using create_validates_text [OF auth(1), of db0]
      create_validates_text [OF auth(2), of db0]
      create_validates_text [OF authenticated_req0, of db0]
      auth authenticated_req0 hyp
    by (simp add: example_defs)
qed

text \<open>
  The claim C6 as the specification words it (a \<^verbatim>\<open>text\<close> that is present and a
  string is stored and answered with 201) fails for the empty string: it is a
  string, and the request is answered with 400 and nothing is stored.
\<close>

theorem create_accepts_every_string_counterexample:
  "authenticated K0 (req0\<lparr>body_text := JStr ''''\<rparr>) alice_claims \<and> connected db0 \<and>
   body_text (req0\<lparr>body_text := JStr ''''\<rparr>) \<noteq> JUndefined \<and>
   typeof (body_text (req0\<lparr>body_text := JStr ''''\<rparr>)) = ''string'' \<and>
   status (response_of (route_post_post K0 db0 (req0\<lparr>body_text := JStr ''''\<rparr>))) \<noteq> 201 \<and>
   route_post_post K0 db0 (req0\<lparr>body_text := JStr ''''\<rparr>) =
     (db0, Some alice_token, Json 400 (Message ''Please provide valid post content''))"
  by (simp add: model_defs example_defs)

text \<open>
  C10. \<^verbatim>\<open>POST /post\<close> rejects the empty string: an authenticated request whose
  \<^verbatim>\<open>text\<close> is \<^verbatim>\<open>""\<close> is answered with 400 and the store is unchanged, although
  \<^verbatim>\<open>typeof text\<close> is \<^verbatim>\<open>"string"\<close>.
\<close>

theorem create_rejects_empty_string:
  assumes "authenticated K req user" and "body_text req = JStr ''''"
  shows "typeof (body_text req) = ''string'' \<and>
         route_post_post K d req =
           (d, session_token req, Json 400 (Message ''Please provide valid post content''))"
  using assms by (simp add: route_post_post_def authenticateJWT_pass post_post_def)

theorem create_rejects_empty_string_witness:
  "authenticated K0 (req0\<lparr>body_text := JStr '''', now := 60000\<rparr>) alice_claims \<and>
   body_text (req0\<lparr>body_text := JStr '''', now := 60000\<rparr>) = JStr '''' \<and>
   route_post_post K0 db0 (req0\<lparr>body_text := JStr '''', now := 60000\<rparr>) =
     (db0, Some alice_token, Json 400 (Message ''Please provide valid post content''))"
proof -
  let ?r = "req0\<lparr>body_text := JStr '''', now := 60000\<rparr>"
  have auth: "authenticated K0 ?r alice_claims"
    by (simp add: authenticated_def jwt_verify_def example_defs)
  have empty: "body_text ?r = JStr ''''"
    by simp
  have s: "session_token ?r = Some alice_token"
    by (simp add: req0_def)
  show ?thesis
    using create_rejects_empty_string [OF auth empty, of db0] auth empty s
    by simp
qed

end
